theory Spec2Isabelle
  imports Complex_Main "HOL-Library.Sublist" "HOL-Library.Log_Nat"
begin

section \<open>Incremental OHLC synchronisation (src/ohlc.py)\<close>

text \<open>
  A shallow embedding of the two OHLC updaters of \<^verbatim>\<open>src/ohlc.py\<close> and of the factory
  that selects one of them.

  \<^item> A \<^verbatim>\<open>datetime.date\<close> is its day number counted from 1970-01-01, an \<open>int\<close>;
    a naive \<^verbatim>\<open>datetime.datetime\<close> is its number of microseconds counted from
    1970-01-01 00:00, an \<open>int\<close>. A \<^verbatim>\<open>timedelta\<close> is a difference of either.
  \<^item> Python floats (prices, volume) are values of the datatype \<open>float64\<close>, and their
    addition rounds as binary64 addition does.
  \<^item> Everything the code reads from outside (the two HTTP endpoints of the crypto
    vendor, the brokerage gateway, the environment, the clock, the local UTC offset) is
    a field of the record \<open>env\<close> or an argument. The calls made and the rows written
    are recorded in the record \<open>world\<close>.
  \<^item> Every exception the code of \<^verbatim>\<open>src/ohlc.py\<close> itself can raise is a value of
    \<open>error\<close>; failures of the collaborators (network, database) are not modelled.
\<close>

subsection \<open>Dates and times\<close>

type_synonym date = int
type_synonym datetime = int

definition usec_per_day :: int where
  "usec_per_day = 86400000000"

text \<open>\<^verbatim>\<open>datetime.date()\<close>: the calendar day of a naive datetime.\<close>

definition date_of :: "datetime \<Rightarrow> date" where
  "date_of t = t div usec_per_day"

text \<open>\<^verbatim>\<open>dt.timedelta(n)\<close> added to a datetime: \<open>n\<close> whole days.\<close>

definition timedelta_days :: "int \<Rightarrow> int" where
  "timedelta_days n = n * usec_per_day"

text \<open>\<^verbatim>\<open>dt.timedelta(minutes=n)\<close>.\<close>

definition timedelta_minutes :: "int \<Rightarrow> int" where
  "timedelta_minutes n = n * 60000000"

text \<open>\<^verbatim>\<open>dt.datetime.combine(d, dt.time(h))\<close>.\<close>

definition combine :: "date \<Rightarrow> int \<Rightarrow> datetime" where
  "combine d h = d * usec_per_day + h * 3600000000"

text \<open>\<^verbatim>\<open>dt.datetime(2000, 1, 1)\<close>: day 10957 after 1970-01-01, at midnight.\<close>

definition datetime_2000_01_01 :: datetime where
  "datetime_2000_01_01 = 10957 * usec_per_day"

subsection \<open>Floating-point numbers\<close>

text \<open>
  A binary64 number: \<open>Finite m e\<close> is \<open>m * 2 ^ e\<close>, \<open>Infinity s\<close> is the infinity that
  is negative when \<open>s\<close> holds, and \<open>NaN\<close> is not a number. A number of the format is
  \<open>Finite m e\<close> with \<open>\<bar>m\<bar> < 2 ^ 53\<close> and \<open>e\<close> from \<open>-1074\<close> to \<open>971\<close>; one number
  may be written with several pairs, and the two zeros are not told apart. The code
  only adds these numbers and compares a sum with zero, and neither tells the pairs of
  a number or the two zeros apart.
\<close>

datatype float64 = Finite int int | Infinity bool | NaN

fun valid_float64 :: "float64 \<Rightarrow> bool" where
  "valid_float64 (Finite m e) = (\<bar>m\<bar> < 2 ^ 53 \<and> - 1074 \<le> e \<and> e \<le> 971)"
| "valid_float64 x = True"

text \<open>
  The number of the format nearest to \<open>m * 2 ^ e\<close>, ties to the even mantissa, and
  the infinity when that number is beyond the largest finite one. \<open>k\<close> is the number
  of low bits of \<open>m\<close> that do not fit in 53 bits.
\<close>

definition round_float64 :: "int \<Rightarrow> int \<Rightarrow> float64" where
  "round_float64 m e =
     (let k = bitlen \<bar>m\<bar> - 53
      in if k \<le> 0 then Finite m e
         else
           (let q = \<bar>m\<bar> div 2 ^ nat k;
                r = \<bar>m\<bar> mod 2 ^ nat k;
                h = 2 ^ nat (k - 1);
                q' = (if h < r \<or> (r = h \<and> odd q) then q + 1 else q);
                q'' = (if q' = 2 ^ 53 then 2 ^ 52 else q');
                e' = (if q' = 2 ^ 53 then e + k + 1 else e + k)
            in if 971 < e' then Infinity (m < 0) else Finite (sgn m * q'') e'))"

text \<open>
  \<^verbatim>\<open>x + y\<close> on two floats: the exact sum of two finite numbers, rounded; the sum of the
  two opposite infinities is not a number.
\<close>

fun fadd :: "float64 \<Rightarrow> float64 \<Rightarrow> float64" where
  "fadd (Finite m1 e1) (Finite m2 e2) =
     (let e = min e1 e2
      in round_float64 (m1 * 2 ^ nat (e1 - e) + m2 * 2 ^ nat (e2 - e)) e)"
| "fadd (Finite m e) (Infinity s) = Infinity s"
| "fadd (Infinity s) (Finite m e) = Infinity s"
| "fadd (Infinity s) (Infinity t) = (if s = t then Infinity s else NaN)"
| "fadd NaN y = NaN"
| "fadd x NaN = NaN"

text \<open>\<^verbatim>\<open>x == 0\<close> on a float: false for the infinities and for what is not a number.\<close>

fun eq_zero :: "float64 \<Rightarrow> bool" where
  "eq_zero (Finite m e) = (m = 0)"
| "eq_zero x = False"

text \<open>\<^verbatim>\<open>float(n)\<close> of an int below \<open>2 ^ 53\<close> in absolute value, which is exact.\<close>

definition float_of_int :: "int \<Rightarrow> float64" where
  "float_of_int n = Finite n 0"

text \<open>A float that is not below zero.\<close>

fun not_negative :: "float64 \<Rightarrow> bool" where
  "not_negative (Finite m e) = (0 \<le> m)"
| "not_negative (Infinity s) = (\<not> s)"
| "not_negative NaN = True"

subsection \<open>Data model (src/models.py) and the outside world\<close>

record instrument =
  symbol :: string
  base_currency :: string
  quote_currency :: string
  exchange :: string
  vehicle :: string
  time_zone :: string
  order_time :: int
  forecast_time :: int

text \<open>
  A row of the table \<^verbatim>\<open>ohlc\<close>, with the columns either updater writes: the brokerage
  variant also writes \<^verbatim>\<open>volume\<close>, the crypto variant does not.
\<close>

record ohlc =
  ohlc_symbol_date :: string
  ohlc_symbol :: string
  ohlc_date :: datetime
  ohlc_open :: float64
  ohlc_high :: float64
  ohlc_low :: float64
  ohlc_close :: float64
  ohlc_volume :: "float64 option"

text \<open>One element of \<^verbatim>\<open>data["Data"]["Data"]\<close> of the vendor's \<^verbatim>\<open>histoday\<close> answer.\<close>

record raw_bar =
  raw_time :: int
  raw_open :: float64
  raw_high :: float64
  raw_low :: float64
  raw_close :: float64

text \<open>The tuple \<^verbatim>\<open>(date, open, high, low, close)\<close> built by \<^verbatim>\<open>request_cryptocompare\<close>.\<close>

type_synonym bar = "datetime \<times> float64 \<times> float64 \<times> float64 \<times> float64"

text \<open>One element of \<^verbatim>\<open>bars["data"]\<close> of the brokerage answer; \<open>t\<close> is in milliseconds.\<close>

record ib_bar =
  ib_o :: float64
  ib_c :: float64
  ib_h :: float64
  ib_l :: float64
  ib_v :: float64
  ib_t :: int

text \<open>
  An upstream call: the vendor's earliest-date lookup, the vendor's \<^verbatim>\<open>histoday\<close> with
  \<^verbatim>\<open>fsym\<close>, \<^verbatim>\<open>tsym\<close>, \<^verbatim>\<open>limit\<close> and \<^verbatim>\<open>toTs\<close> (sent as decimal strings, kept as
  numbers here), and the brokerage's \<^verbatim>\<open>get_bars\<close> with symbol, period and bar size.
\<close>

datatype request =
    BlockchainList
  | Histoday string string int int
  | GetBars string string string

text \<open>
  What the code reads from outside. \<open>utc_offset\<close> is the offset in seconds of the
  local time zone, taken as constant (\<^verbatim>\<open>fromtimestamp\<close> and \<^verbatim>\<open>timestamp\<close> use local
  time). \<open>histoday fsym tsym limit toTs\<close> is the list \<^verbatim>\<open>["Data"]["Data"]\<close> of the answer,
  in the order the vendor sends it. \<open>isoformat\<close> stands for the text of a date
  (\<^verbatim>\<open>str\<close> of a date, \<^verbatim>\<open>strftime("%Y-%m-%d")\<close>). \<open>get_instrument\<close> is \<^verbatim>\<open>src.db_utils.get_instrument\<close>
  and \<open>time_check\<close> is \<^verbatim>\<open>src.time_checker.time_check\<close>, neither of them in the sources;
  \<open>TIME_CHECKER\<close> is \<^verbatim>\<open>os.getenv("TIME_CHECKER")\<close>.
\<close>

record env =
  utc_offset :: int
  data_available_from :: int
  histoday :: "string \<Rightarrow> string \<Rightarrow> int \<Rightarrow> int \<Rightarrow> raw_bar list"
  get_bars :: "string \<Rightarrow> string \<Rightarrow> string \<Rightarrow> ib_bar list"
  TIME_CHECKER :: "string option"
  time_check :: "string \<Rightarrow> string \<Rightarrow> bool"
  get_instrument :: "string \<Rightarrow> instrument"
  isoformat :: "date \<Rightarrow> string"

text \<open>The upstream calls made so far, oldest first, and the rows of the Bar Store.\<close>

record world =
  requests :: "request list"
  store :: "ohlc list"

datatype error =
    IndexError
  | UnboundLocalError string
  | AttributeError string
  | KeyError string

text \<open>\<^verbatim>\<open>dt.datetime.fromtimestamp(ts)\<close>: epoch seconds to a naive local datetime.\<close>

definition fromtimestamp :: "env \<Rightarrow> int \<Rightarrow> datetime" where
  "fromtimestamp e ts = (ts + utc_offset e) * 1000000"

text \<open>\<^verbatim>\<open>int(dt.datetime.timestamp(t))\<close>: a naive local datetime to epoch seconds.\<close>

definition timestamp :: "env \<Rightarrow> datetime \<Rightarrow> int" where
  "timestamp e t = t div 1000000 - utc_offset e"

subsection \<open>CryptoCompareOHLC\<close>

record CryptoCompareOHLC =
  cc_symbol :: string
  cc_start_date :: "date option"
  cc_end_date :: "date option"
  cc_instrument :: instrument
  cc_data :: "bar list option"

text \<open>\<^verbatim>\<open>CryptoCompareOHLC.__init__\<close>; the attribute \<^verbatim>\<open>data\<close> does not exist yet.\<close>

definition CryptoCompareOHLC_init :: "env \<Rightarrow> string \<Rightarrow> CryptoCompareOHLC" where
  "CryptoCompareOHLC_init e symb =
     \<lparr>cc_symbol = symb, cc_start_date = None, cc_end_date = None,
      cc_instrument = get_instrument e symb, cc_data = None\<rparr>"

text \<open>
  The answer of one \<^verbatim>\<open>request_cryptocompare(limit, to_date)\<close>. The loop walks the
  vendor's list reversed and appends, \<^verbatim>\<open>np.flip\<close> reverses the arrays again, and
  \<^verbatim>\<open>zip\<close> builds the tuples.
\<close>

definition bar_of_raw :: "env \<Rightarrow> raw_bar \<Rightarrow> bar" where
  "bar_of_raw e r = (fromtimestamp e (raw_time r), raw_open r, raw_high r, raw_low r, raw_close r)"

definition toTs :: "env \<Rightarrow> date \<Rightarrow> int" where
  "toTs e to_date = timestamp e (combine to_date 6)"

definition cryptocompare_answer :: "env \<Rightarrow> CryptoCompareOHLC \<Rightarrow> int \<Rightarrow> date \<Rightarrow> bar list" where
  "cryptocompare_answer e self limit to_date =
     (let data = histoday e (base_currency (cc_instrument self))
                   (quote_currency (cc_instrument self)) limit (toTs e to_date);
          array_rev = map (bar_of_raw e) (rev data)
      in rev array_rev)"

definition histoday_request :: "env \<Rightarrow> CryptoCompareOHLC \<Rightarrow> int \<Rightarrow> date \<Rightarrow> request" where
  "histoday_request e self limit to_date =
     Histoday (base_currency (cc_instrument self)) (quote_currency (cc_instrument self))
       limit (toTs e to_date)"

text \<open>\<^verbatim>\<open>request_cryptocompare\<close>: one upstream call, recorded, and its answer.\<close>

definition request_cryptocompare ::
  "env \<Rightarrow> CryptoCompareOHLC \<Rightarrow> int \<Rightarrow> date \<Rightarrow> world \<Rightarrow> bar list \<times> world" where
  "request_cryptocompare e self limit to_date w =
     (cryptocompare_answer e self limit to_date,
      w\<lparr>requests := requests w @ [histoday_request e self limit to_date]\<rparr>)"

text \<open>
  The loop \<^verbatim>\<open>while limit > 2000\<close> of \<^verbatim>\<open>get_ohlc_data\<close>, on the variables
  \<^verbatim>\<open>limit\<close>, \<^verbatim>\<open>to_date\<close> and \<^verbatim>\<open>all_data\<close>. \<^verbatim>\<open>data[0][0]\<close> raises on an empty answer.
\<close>

function page_loop ::
  "env \<Rightarrow> CryptoCompareOHLC \<Rightarrow> int \<Rightarrow> date \<Rightarrow> bar list \<Rightarrow> world
     \<Rightarrow> error + (int \<times> date \<times> bar list \<times> world)" where
  "page_loop e self limit to_date all_data w =
     (if limit > 2000 then
        (case request_cryptocompare e self 2000 to_date w of
           (data, w') \<Rightarrow>
             (case data of
                [] \<Rightarrow> Inl IndexError
              | b # _ \<Rightarrow>
                  page_loop e self (limit - 2000) (date_of (fst b) - 1) (data @ all_data) w'))
      else Inr (limit, to_date, all_data, w))"
  by pat_completeness auto
termination
  by (relation "measure (\<lambda>(e, self, limit, to_date, all_data, w). nat limit)") auto

text \<open>The statement \<^verbatim>\<open>if limit > 2000: ... else: ...\<close> that fills \<^verbatim>\<open>all_data\<close>.\<close>

definition fetch_all ::
  "env \<Rightarrow> CryptoCompareOHLC \<Rightarrow> int \<Rightarrow> date \<Rightarrow> world \<Rightarrow> error + (bar list \<times> world)" where
  "fetch_all e self limit end_date w =
     (if limit > 2000 then
        (case page_loop e self limit end_date [] w of
           Inl err \<Rightarrow> Inl err
         | Inr (limit', to_date, all_data, w') \<Rightarrow>
             (if limit' > 0 then
                (case request_cryptocompare e self limit' to_date w' of
                   (data, w'') \<Rightarrow> Inr (data @ all_data, w''))
              else Inr (all_data, w')))
      else Inr (request_cryptocompare e self limit end_date w))"

text \<open>
  \<^verbatim>\<open>sum([ohlc[1], ohlc[2], ohlc[3], ohlc[4]])\<close>: the four floats added from left to
  right, starting from the int \<^verbatim>\<open>0\<close>. The elements are \<^verbatim>\<open>numpy.float64\<close> scalars, so
  every step is one rounded addition.
\<close>

fun ohlc_sum :: "bar \<Rightarrow> float64" where
  "ohlc_sum (d, op, hi, lo, cl) = fadd (fadd (fadd (fadd (float_of_int 0) op) hi) lo) cl"

text \<open>
  The loop \<^verbatim>\<open>for i, ohlc in enumerate(all_data)\<close> with its \<^verbatim>\<open>break\<close>: the value of
  \<^verbatim>\<open>i\<close> after the loop, \<open>None\<close> when \<^verbatim>\<open>i\<close> was never assigned. The first argument is
  \<^verbatim>\<open>i\<close> before the rest of the list is visited, the second the next index.
\<close>

fun enumerate_break :: "nat option \<Rightarrow> nat \<Rightarrow> bar list \<Rightarrow> nat option" where
  "enumerate_break i n [] = i"
| "enumerate_break i n (b # bs) =
     (if \<not> eq_zero (ohlc_sum b) then Some n else enumerate_break (Some n) (Suc n) bs)"

text \<open>The branch \<^verbatim>\<open>if not start_date\<close>: the loop, then \<^verbatim>\<open>all_data[i:]\<close>.\<close>

definition strip_leading_zeros :: "bar list \<Rightarrow> error + bar list" where
  "strip_leading_zeros all_data =
     (case enumerate_break None 0 all_data of
        None \<Rightarrow> Inl (UnboundLocalError ''i'')
      | Some i \<Rightarrow> Inr (drop i all_data))"

text \<open>
  \<^verbatim>\<open>limit\<close> after the two statements \<^verbatim>\<open>if start_date:\<close> and \<^verbatim>\<open>if start_date is None:\<close>,
  \<open>None\<close> when neither assigned it, with the world after the vendor's lookup. A
  \<^verbatim>\<open>datetime.date\<close> is always true, so \<^verbatim>\<open>if start_date\<close> is taken exactly when
  \<^verbatim>\<open>start_date\<close> is not \<^verbatim>\<open>None\<close>.
\<close>

definition set_limit :: "env \<Rightarrow> date \<Rightarrow> date option \<Rightarrow> world \<Rightarrow> int option \<times> world" where
  "set_limit e end_date start_date w =
     (let limit1 = (case start_date of Some sd \<Rightarrow> Some (end_date - sd) | None \<Rightarrow> None)
      in if start_date = None then
           (let first_ts = data_available_from e;
                first_date = date_of (fromtimestamp e first_ts)
            in (Some (end_date - first_date), w\<lparr>requests := requests w @ [BlockchainList]\<rparr>))
         else (limit1, w))"

text \<open>\<^verbatim>\<open>CryptoCompareOHLC.get_ohlc_data(end_date, start_date)\<close>.\<close>

definition get_ohlc_data ::
  "env \<Rightarrow> CryptoCompareOHLC \<Rightarrow> date \<Rightarrow> date option \<Rightarrow> world
     \<Rightarrow> error + (CryptoCompareOHLC \<times> world)" where
  "get_ohlc_data e self end_date start_date w =
     (if \<not> vehicle (cc_instrument self) = ''crypto'' then Inr (self, w)
      else
        (case set_limit e end_date start_date w of
           (None, w1) \<Rightarrow> Inl (UnboundLocalError ''limit'')
         | (Some limit, w1) \<Rightarrow>
             (case fetch_all e self limit end_date w1 of
                Inl err \<Rightarrow> Inl err
              | Inr (all_data, w2) \<Rightarrow>
                  (if start_date = None then
                     (case strip_leading_zeros all_data of
                        Inl err \<Rightarrow> Inl err
                      | Inr all_data' \<Rightarrow> Inr (self\<lparr>cc_data := Some all_data'\<rparr>, w2))
                   else Inr (self\<lparr>cc_data := Some (drop 1 all_data)\<rparr>, w2)))))"

text \<open>
  \<^verbatim>\<open>CryptoCompareOHLC.insert_ohlc_data\<close>: one record for each tuple of \<^verbatim>\<open>self.data\<close>,
  added to the store in one commit. Reading \<^verbatim>\<open>self.data\<close> before any
  \<^verbatim>\<open>get_ohlc_data\<close> has set it raises.
\<close>

definition OHLC_of_bar :: "env \<Rightarrow> string \<Rightarrow> bar \<Rightarrow> ohlc" where
  "OHLC_of_bar e symb i =
     (case i of (d, op, hi, lo, cl) \<Rightarrow>
        \<lparr>ohlc_symbol_date = symb @ '' '' @ isoformat e (date_of d),
         ohlc_symbol = symb, ohlc_date = d,
         ohlc_open = op, ohlc_high = hi, ohlc_low = lo, ohlc_close = cl,
         ohlc_volume = None\<rparr>)"

definition insert_ohlc_data ::
  "env \<Rightarrow> CryptoCompareOHLC \<Rightarrow> world \<Rightarrow> error + (CryptoCompareOHLC \<times> world)" where
  "insert_ohlc_data e self w =
     (case cc_data self of
        None \<Rightarrow> Inl (AttributeError ''data'')
      | Some data \<Rightarrow>
          Inr (self, w\<lparr>store := store w @ map (OHLC_of_bar e (cc_symbol self)) data\<rparr>))"

text \<open>
  \<^verbatim>\<open>CryptoCompareOHLC.update_ohlc_data\<close>. \<open>latest_ohlc\<close> is what
  \<^verbatim>\<open>get_latest_record(self.symbol, OHLC)\<close> returned (that function is not in the
  sources) and \<open>today\<close> is \<^verbatim>\<open>dt.date.today()\<close>, the same at each of its calls.
\<close>

definition get_then_insert ::
  "env \<Rightarrow> CryptoCompareOHLC \<Rightarrow> date \<Rightarrow> date option \<Rightarrow> world
     \<Rightarrow> error + (CryptoCompareOHLC \<times> world)" where
  "get_then_insert e self end_date start_date w =
     (case get_ohlc_data e self end_date start_date w of
        Inl err \<Rightarrow> Inl err
      | Inr (self', w') \<Rightarrow> insert_ohlc_data e self' w')"

definition update_ohlc_data ::
  "env \<Rightarrow> CryptoCompareOHLC \<Rightarrow> ohlc option \<Rightarrow> date \<Rightarrow> world
     \<Rightarrow> error + (CryptoCompareOHLC \<times> world)" where
  "update_ohlc_data e self latest_ohlc today w =
     (case latest_ohlc of
        None \<Rightarrow> get_then_insert e self today None w
      | Some r \<Rightarrow>
          (if date_of (ohlc_date r) = today - 1 then
             get_then_insert e self today (Some (date_of (ohlc_date r))) w
           else if date_of (ohlc_date r) \<noteq> today then
             get_then_insert e self today (Some (date_of (ohlc_date r) + 1)) w
           else Inr (self, w)))"

subsection \<open>IBOHLC\<close>

text \<open>The attribute \<^verbatim>\<open>df\<close> exists only once \<^verbatim>\<open>get_ohlc_data\<close> has kept a frame.\<close>

record IBOHLC =
  ib_symbol :: string
  ib_df :: "ohlc list option"

definition IBOHLC_init :: "string \<Rightarrow> IBOHLC" where
  "IBOHLC_init symb = \<lparr>ib_symbol = symb, ib_df = None\<rparr>"

text \<open>
  One row of the data frame after \<^verbatim>\<open>pd.to_datetime(df["t"], unit="ms")\<close>, the renaming
  of the columns and the two added columns.
\<close>

definition row_of_ib_bar :: "env \<Rightarrow> string \<Rightarrow> ib_bar \<Rightarrow> ohlc" where
  "row_of_ib_bar e symb b =
     (let d = ib_t b * 1000
      in \<lparr>ohlc_symbol_date = symb @ '' '' @ isoformat e (date_of d),
          ohlc_symbol = symb, ohlc_date = d,
          ohlc_open = ib_o b, ohlc_high = ib_h b, ohlc_low = ib_l b, ohlc_close = ib_c b,
          ohlc_volume = Some (ib_v b)\<rparr>)"

text \<open>
  \<^verbatim>\<open>IBOHLC.get_ohlc_data(start_date, end_date)\<close>. A bound that is \<open>None\<close> is false in
  \<^verbatim>\<open>if start_date:\<close>; a datetime is always true. A frame built from an empty list has
  no column \<^verbatim>\<open>t\<close>, and \<^verbatim>\<open>df["t"]\<close> raises.
\<close>

definition ib_get_ohlc_data ::
  "env \<Rightarrow> IBOHLC \<Rightarrow> datetime option \<Rightarrow> datetime option \<Rightarrow> world
     \<Rightarrow> error + (IBOHLC \<times> world)" where
  "ib_get_ohlc_data e self start_date end_date w =
     (if TIME_CHECKER e = Some ''1'' \<and> \<not> time_check e (ib_symbol self) ''forecast''
      then Inr (self, w)
      else
        (let bars = get_bars e (ib_symbol self) ''5y'' ''1d'';
             w' = w\<lparr>requests := requests w @ [GetBars (ib_symbol self) ''5y'' ''1d'']\<rparr>
         in if bars = [] then Inl (KeyError ''t'')
            else
              (let df = map (row_of_ib_bar e (ib_symbol self)) bars;
                   df1 = (case start_date of
                            Some sd \<Rightarrow> filter (\<lambda>r. ohlc_date r > sd) df
                          | None \<Rightarrow> df);
                   df2 = (case end_date of
                            Some ed \<Rightarrow> filter (\<lambda>r. ohlc_date r < ed) df1
                          | None \<Rightarrow> df1)
               in if df2 \<noteq> [] then Inr (self\<lparr>ib_df := Some df2\<rparr>, w')
                  else Inr (self, w'))))"

text \<open>\<^verbatim>\<open>IBOHLC.insert_ohlc_data\<close>: \<^verbatim>\<open>self.df.to_sql("ohlc", ..., if_exists="append")\<close>.\<close>

definition ib_insert_ohlc_data :: "IBOHLC \<Rightarrow> world \<Rightarrow> error + (IBOHLC \<times> world)" where
  "ib_insert_ohlc_data self w =
     (case ib_df self of
        None \<Rightarrow> Inl (AttributeError ''df'')
      | Some df \<Rightarrow> Inr (self, w\<lparr>store := store w @ df\<rparr>))"

text \<open>
  \<^verbatim>\<open>IBOHLC.update_ohlc_data\<close>. \<open>now\<close> is \<^verbatim>\<open>dt.datetime.now()\<close>, and
  \<^verbatim>\<open>dt.date.today()\<close> is its date. The first definition is the part after the window
  is chosen: the fetch, then the insertion when \<^verbatim>\<open>hasattr(self, "df")\<close>.
\<close>

definition ib_fetch_and_insert ::
  "env \<Rightarrow> IBOHLC \<Rightarrow> datetime \<Rightarrow> datetime \<Rightarrow> world \<Rightarrow> error + (IBOHLC \<times> world)" where
  "ib_fetch_and_insert e self start_dt end_dt w =
     (case ib_get_ohlc_data e self (Some start_dt) (Some end_dt) w of
        Inl err \<Rightarrow> Inl err
      | Inr (self', w') \<Rightarrow>
          (if ib_df self' \<noteq> None then ib_insert_ohlc_data self' w' else Inr (self', w')))"

definition ib_update_ohlc_data ::
  "env \<Rightarrow> IBOHLC \<Rightarrow> ohlc option \<Rightarrow> datetime \<Rightarrow> world \<Rightarrow> error + (IBOHLC \<times> world)" where
  "ib_update_ohlc_data e self latest_ohlc now w =
     (let today = date_of now
      in case latest_ohlc of
           None \<Rightarrow>
             ib_fetch_and_insert e self datetime_2000_01_01 (now - timedelta_minutes 20) w
         | Some r \<Rightarrow>
             (if date_of (ohlc_date r) = today then Inr (self, w)
              else if date_of (ohlc_date r) = today - 1 then
                ib_fetch_and_insert e self (ohlc_date r + timedelta_days 1)
                  (now - timedelta_minutes 20) w
              else if date_of (ohlc_date r) \<noteq> today then
                ib_fetch_and_insert e self (ohlc_date r + timedelta_days 1)
                  (now - timedelta_minutes 20) w
              else Inl (UnboundLocalError ''start'')))"

subsection \<open>OHLCUpdaterFactory\<close>

text \<open>
  \<^verbatim>\<open>str.lower\<close> on the letters A to Z; a string is a list of bytes here, so the
  lower-casing of characters beyond ASCII is not modelled.
\<close>

definition lower_char :: "char \<Rightarrow> char" where
  "lower_char c =
     (let n = (of_char c :: nat) in if 65 \<le> n \<and> n \<le> 90 then char_of (n + 32) else c)"

definition lower :: "string \<Rightarrow> string" where
  "lower s = map lower_char s"

datatype OHLCUpdater = CryptoCompare CryptoCompareOHLC | InteractiveBrokers IBOHLC

text \<open>
  \<^verbatim>\<open>OHLCUpdaterFactory.create_updater\<close>: a function that ends without \<^verbatim>\<open>return\<close>
  returns \<^verbatim>\<open>None\<close>.
\<close>

definition create_updater :: "env \<Rightarrow> string \<Rightarrow> string \<Rightarrow> OHLCUpdater option" where
  "create_updater e ohlc_data_source symb =
     (if lower ohlc_data_source = ''crypto-compare'' then
        Some (CryptoCompare (CryptoCompareOHLC_init e symb))
      else if lower ohlc_data_source = ''interactive-brokers'' then
        Some (InteractiveBrokers (IBOHLC_init symb))
      else None)"

subsection \<open>Properties of fetched data\<close>

text \<open>The calendar days of a list of tuples, in the order of the list.\<close>

definition dates :: "bar list \<Rightarrow> date list" where
  "dates bs = map (\<lambda>b. date_of (fst b)) bs"

text \<open>Each day of the list is the day after the one before it: no gap.\<close>

fun contiguous :: "date list \<Rightarrow> bool" where
  "contiguous (a # b # ds) = (b = a + 1 \<and> contiguous (b # ds))"
| "contiguous ds = True"

text \<open>A tuple whose open, high, low and close are all zero.\<close>

fun all_zero :: "bar \<Rightarrow> bool" where
  "all_zero (d, op, hi, lo, cl) = (eq_zero op \<and> eq_zero hi \<and> eq_zero lo \<and> eq_zero cl)"

text \<open>A tuple none of whose four prices is below zero.\<close>

fun nonnegative_bar :: "bar \<Rightarrow> bool" where
  "nonnegative_bar (d, op, hi, lo, cl) =
     (not_negative op \<and> not_negative hi \<and> not_negative lo \<and> not_negative cl)"

text \<open>
  The calendar days of the tuples that \<^verbatim>\<open>get_ohlc_data\<close> leaves in \<^verbatim>\<open>self.data\<close> for
  the insertion, \<open>None\<close> when it raised or left \<^verbatim>\<open>data\<close> unset.
\<close>

definition staged_dates ::
  "env \<Rightarrow> CryptoCompareOHLC \<Rightarrow> date \<Rightarrow> date option \<Rightarrow> world \<Rightarrow> date list option" where
  "staged_dates e self end_date start_date w =
     (case get_ohlc_data e self end_date start_date w of
        Inl err \<Rightarrow> None
      | Inr (self', w') \<Rightarrow> map_option dates (cc_data self'))"

text \<open>The gate of \<^verbatim>\<open>IBOHLC.get_ohlc_data\<close>: the fetch is skipped.\<close>

definition time_gate_closed :: "env \<Rightarrow> IBOHLC \<Rightarrow> bool" where
  "time_gate_closed e self =
     (TIME_CHECKER e = Some ''1'' \<and> \<not> time_check e (ib_symbol self) ''forecast'')"

text \<open>The rows of the brokerage's answer to the request for "5y" of "1d" bars.\<close>

definition ib_rows :: "env \<Rightarrow> string \<Rightarrow> ohlc list" where
  "ib_rows e symb = map (row_of_ib_bar e symb) (get_bars e symb ''5y'' ''1d'')"

text \<open>\<^verbatim>\<open>if not df.empty: self.df = df\<close>, as a function of the filtered frame.\<close>

definition keep_staged :: "IBOHLC \<Rightarrow> ohlc list \<Rightarrow> IBOHLC" where
  "keep_staged self df = (if df \<noteq> [] then self\<lparr>ib_df := Some df\<rparr> else self)"

text \<open>The two tests of the client-side filter on one row; a bound that is unset passes.\<close>

definition in_window :: "datetime option \<Rightarrow> datetime option \<Rightarrow> ohlc \<Rightarrow> bool" where
  "in_window start_date end_date r =
     ((case start_date of Some sd \<Rightarrow> sd < ohlc_date r | None \<Rightarrow> True) \<and>
      (case end_date of Some ed \<Rightarrow> ohlc_date r < ed | None \<Rightarrow> True))"

subsection \<open>Synthetic upstreams and instruments\<close>

text \<open>The instrument seeded by \<^verbatim>\<open>runners/create_db.py\<close>, and one that is not crypto.\<close>

definition BTCUSD :: instrument where
  "BTCUSD =
     \<lparr>symbol = ''BTCUSD'', base_currency = ''BTC'', quote_currency = ''USD'',
      exchange = ''dydx'', vehicle = ''crypto'', time_zone = ''Europe/London'',
      order_time = 7 * 3600, forecast_time = 6 * 3600\<rparr>"

definition NVDA :: instrument where
  "NVDA =
     \<lparr>symbol = ''NVDA'', base_currency = ''NVDA'', quote_currency = ''USD'',
      exchange = ''ib'', vehicle = ''stock'', time_zone = ''America/New_York'',
      order_time = 7 * 3600, forecast_time = 6 * 3600\<rparr>"

text \<open>A vendor point at 00:00 GMT of day \<open>d\<close>, with prices 1 or with prices 0.\<close>

definition flat_bar :: "int \<Rightarrow> raw_bar" where
  "flat_bar d =
     \<lparr>raw_time = d * 86400, raw_open = float_of_int 1, raw_high = float_of_int 1,
      raw_low = float_of_int 1, raw_close = float_of_int 1\<rparr>"

definition zero_bar :: "int \<Rightarrow> raw_bar" where
  "zero_bar d =
     \<lparr>raw_time = d * 86400, raw_open = float_of_int 0, raw_high = float_of_int 0,
      raw_low = float_of_int 0, raw_close = float_of_int 0\<rparr>"


text \<open>
  Synthetic vendors. Each of the first four answers a request of size \<open>limit\<close> with
  \<open>limit + 1\<close> points, one for each day up to the day of \<open>toTs\<close>: the first oldest first,
  the second newest first, the third oldest first with zero prices before day 14250,
  the fourth as the third with the point of day 14250 replaced by an offsetting one.
  The last vendor answers with no point at all.
\<close>

definition oldest_first :: "string \<Rightarrow> string \<Rightarrow> int \<Rightarrow> int \<Rightarrow> raw_bar list" where
  "oldest_first fsym tsym limit ts = map flat_bar [ts div 86400 - limit..ts div 86400]"

definition newest_first :: "string \<Rightarrow> string \<Rightarrow> int \<Rightarrow> int \<Rightarrow> raw_bar list" where
  "newest_first fsym tsym limit ts = rev (map flat_bar [ts div 86400 - limit..ts div 86400])"

definition genesis :: "string \<Rightarrow> string \<Rightarrow> int \<Rightarrow> int \<Rightarrow> raw_bar list" where
  "genesis fsym tsym limit ts =
     map (\<lambda>d. if d < 14250 then zero_bar d else flat_bar d)
       [ts div 86400 - limit..ts div 86400]"


definition silent :: "string \<Rightarrow> string \<Rightarrow> int \<Rightarrow> int \<Rightarrow> raw_bar list" where
  "silent fsym tsym limit ts = []"

text \<open>Four daily bars of the brokerage, at days 20000 to 20003, in milliseconds.\<close>

definition day_bar :: "int \<Rightarrow> ib_bar" where
  "day_bar d =
     \<lparr>ib_o = float_of_int 1, ib_c = float_of_int 1, ib_h = float_of_int 1, ib_l = float_of_int 1,
      ib_v = float_of_int 10, ib_t = d * 86400000\<rparr>"

definition four_days :: "ib_bar list" where
  "four_days = [day_bar 20000, day_bar 20001, day_bar 20002, day_bar 20003]"

text \<open>
  A synthetic outside world around a vendor \<open>h\<close>: local time is UTC, the vendor's
  earliest date is day 14247 (2009-01-03), the brokerage answers \<open>four_days\<close>, the
  scheduling gate is off, and the text of a date is left empty.
\<close>

definition synthetic_env :: "(string \<Rightarrow> string \<Rightarrow> int \<Rightarrow> int \<Rightarrow> raw_bar list) \<Rightarrow> env" where
  "synthetic_env h =
     \<lparr>utc_offset = 0, data_available_from = 1230940800, histoday = h,
      get_bars = (\<lambda>symb period bar. four_days),
      TIME_CHECKER = None, time_check = (\<lambda>symb kind. True),
      get_instrument = (\<lambda>symb. if symb = ''BTCUSD'' then BTCUSD else NVDA),
      isoformat = (\<lambda>d. [])\<rparr>"

definition empty_world :: world where
  "empty_world = \<lparr>requests = [], store = []\<rparr>"

text \<open>A stored row of \<open>symb\<close> dated \<open>t\<close>.\<close>

definition stored_row :: "string \<Rightarrow> datetime \<Rightarrow> ohlc" where
  "stored_row symb t =
     \<lparr>ohlc_symbol_date = symb, ohlc_symbol = symb, ohlc_date = t,
      ohlc_open = float_of_int 1, ohlc_high = float_of_int 1, ohlc_low = float_of_int 1,
      ohlc_close = float_of_int 1, ohlc_volume = None\<rparr>"

section \<open>Verified properties\<close>

subsection \<open>Auxiliary facts\<close>

declare page_loop.simps [simp del]

lemma round_float64_small: "\<bar>m\<bar> < 2 ^ 53 \<Longrightarrow> round_float64 m e = Finite m e"
  by (simp add: round_float64_def bitlen_le_iff_power)

lemma round_float64_zero: "round_float64 0 e = Finite 0 e"
  by (simp add: round_float64_def)

lemma fadd_zero: "eq_zero a \<Longrightarrow> eq_zero b \<Longrightarrow> eq_zero (fadd a b)"
  by (cases a; cases b) (simp_all add: round_float64_zero)

lemma round_float64_positive:
  assumes "0 < m"
  shows "not_negative (round_float64 m e) \<and> \<not> eq_zero (round_float64 m e)"
proof (cases "bitlen \<bar>m\<bar> - 53 \<le> 0")
  case True
  then show ?thesis
    using assms by (simp add: round_float64_def)
next
  case False
  define k where "k = bitlen \<bar>m\<bar> - 53"
  have k: "0 < k"
    using False by (simp add: k_def)
  have low: "2 ^ nat (bitlen m - 1) \<le> m"
    using bitlen_bounds [OF assms] by simp
  have "(2::int) ^ nat k \<le> 2 ^ nat (bitlen m - 1)"
    using k assms by (intro power_increasing) (simp_all add: k_def)
  from this low have "2 ^ nat k \<le> m"
    by (rule order_trans)
  then have q: "0 < m div 2 ^ nat k"
    by (simp add: pos_imp_zdiv_pos_iff)
  show ?thesis
    using assms k q unfolding round_float64_def k_def [symmetric] Let_def
    by (auto simp: k_def)
qed

lemma fadd_not_negative:
  assumes "not_negative a" and "not_negative b"
  shows "not_negative (fadd a b) \<and> (eq_zero (fadd a b) \<longrightarrow> eq_zero a \<and> eq_zero b)"
proof (cases a)
  case (Finite m1 e1)
  note a = this
  show ?thesis
  proof (cases b)
    case (Finite m2 e2)
    define m where "m = m1 * 2 ^ nat (e1 - min e1 e2) + m2 * 2 ^ nat (e2 - min e1 e2)"
    have nn: "0 \<le> m1" "0 \<le> m2"
      using assms a Finite by simp_all
    have sum: "fadd a b = round_float64 m (min e1 e2)"
      by (simp add: a Finite m_def Let_def)
    show ?thesis
    proof (cases "m1 = 0 \<and> m2 = 0")
      case True
      then show ?thesis
        by (simp add: a Finite round_float64_zero)
    next
      case False
      have "0 \<le> m1 * 2 ^ nat (e1 - min e1 e2)" "0 \<le> m2 * 2 ^ nat (e2 - min e1 e2)"
        using nn by simp_all
      moreover have "0 < m1 * 2 ^ nat (e1 - min e1 e2) \<or> 0 < m2 * 2 ^ nat (e2 - min e1 e2)"
        using nn False by (auto simp: zero_less_mult_iff)
      ultimately have "0 < m"
        unfolding m_def by linarith
      then show ?thesis
        using round_float64_positive [of m "min e1 e2"] sum by simp
    qed
  next
    case (Infinity s)
    then show ?thesis using assms a by simp
  next
    case NaN
    then show ?thesis by (simp add: a)
  qed
next
  case (Infinity s)
  then show ?thesis using assms by (cases b) auto
next
  case NaN
  then show ?thesis by simp
qed

lemma round_float64_valid:
  assumes "- 1074 \<le> e" and "e \<le> 971"
  shows "valid_float64 (round_float64 m e)"
proof (cases "bitlen \<bar>m\<bar> - 53 \<le> 0")
  case True
  then have "\<bar>m\<bar> < 2 ^ 53"
    using bitlen_le_iff_power [of "\<bar>m\<bar>" 53] by simp
  then show ?thesis
    using True assms by (simp add: round_float64_def)
next
  case False
  define k where "k = bitlen \<bar>m\<bar> - 53"
  define q where "q = \<bar>m\<bar> div 2 ^ nat k"
  have k: "0 < k"
    using False by (simp add: k_def)
  then have pos: "0 < \<bar>m\<bar>"
    by (cases "m = 0") (simp_all add: k_def)
  have "\<bar>m\<bar> < 2 ^ nat (bitlen \<bar>m\<bar>)"
    using bitlen_bounds [OF pos] by simp
  also have "nat (bitlen \<bar>m\<bar>) = 53 + nat k"
    using k by (simp add: k_def)
  finally have up: "\<bar>m\<bar> < 2 ^ 53 * 2 ^ nat k"
    by (simp add: power_add)
  have "q * 2 ^ nat k + \<bar>m\<bar> mod 2 ^ nat k = \<bar>m\<bar>"
    unfolding q_def by (rule div_mult_mod_eq)
  moreover have "0 \<le> \<bar>m\<bar> mod 2 ^ nat k"
    by simp
  ultimately have "q * 2 ^ nat k < 2 ^ 53 * 2 ^ nat k"
    using up by linarith
  then have q53: "q < 2 ^ 53"
    by simp
  have q0: "0 \<le> q"
    unfolding q_def by (simp add: pos_imp_zdiv_nonneg_iff)
  have sg: "\<bar>sgn m * x\<bar> = \<bar>x\<bar>" for x
    using pos by (simp add: abs_mult)
  show ?thesis
    using k q53 q0 assms unfolding round_float64_def k_def [symmetric] q_def [symmetric] Let_def
    by (auto simp: sg)
qed

lemma fadd_valid:
  assumes "valid_float64 a" and "valid_float64 b"
  shows "valid_float64 (fadd a b)"
  using assms by (cases a; cases b) (auto simp: Let_def intro!: round_float64_valid)

lemma ohlc_sum_rounds:
  "eq_zero (ohlc_sum (d, Finite 152587890625 16, float_of_int 1, Finite (- 152587890625) 16,
                      float_of_int 0))"
  "ohlc_sum (d, Finite 3602879701896397 (- 55), Finite 3602879701896397 (- 54),
             Finite (- 5404319552844595) (- 54), float_of_int 0) = Finite 1 (- 54)"
  by code_simp+

lemma synthetic_env_sel:
  "histoday (synthetic_env h) = h"
  "utc_offset (synthetic_env h) = 0"
  "data_available_from (synthetic_env h) = 1230940800"
  "TIME_CHECKER (synthetic_env h) = None"
  "get_bars (synthetic_env h) symb period bar = four_days"
  "isoformat (synthetic_env h) d = []"
  by (simp_all add: synthetic_env_def)

lemma btc_is_crypto:
  "vehicle (cc_instrument (CryptoCompareOHLC_init (synthetic_env h) ''BTCUSD'')) = ''crypto''"
  by (simp add: CryptoCompareOHLC_init_def synthetic_env_def BTCUSD_def)

lemma first_date_synthetic:
  "date_of (fromtimestamp (synthetic_env h) (data_available_from (synthetic_env h))) = 14247"
  "date_of (fromtimestamp (synthetic_env h) 1230940800) = 14247"
  by (simp_all add: synthetic_env_def fromtimestamp_def date_of_def usec_per_day_def)

lemma set_limit_assigned:
  "set_limit e end_date start_date w =
     (case start_date of
        Some sd \<Rightarrow> (Some (end_date - sd), w)
      | None \<Rightarrow> (Some (end_date - date_of (fromtimestamp e (data_available_from e))),
                 w\<lparr>requests := requests w @ [BlockchainList]\<rparr>))"
  by (simp add: set_limit_def split: option.splits)

lemma page_loop_error:
  "page_loop e self limit to_date all_data w = Inl err \<Longrightarrow> err = IndexError"
proof (induction e self limit to_date all_data w rule: page_loop.induct)
  case (1 e self limit to_date all_data w)
  show ?case
  proof (cases "limit > 2000")
    case True
    obtain data w' where r: "request_cryptocompare e self 2000 to_date w = (data, w')"
      by (cases "request_cryptocompare e self 2000 to_date w")
    show ?thesis
    proof (cases data)
      case Nil
      then show ?thesis
        using True r "1.prems" by (simp add: page_loop.simps [of e self limit])
    next
      case (Cons b bs)
      then have "page_loop e self (limit - 2000) (date_of (fst b) - 1) (data @ all_data) w'
          = Inl err"
        using True r "1.prems" by (simp add: page_loop.simps [of e self limit])
      then show ?thesis
        using "1.IH" [OF True r [symmetric] Cons] Cons by simp
    qed
  next
    case False
    then show ?thesis
      using "1.prems" by (simp add: page_loop.simps [of e self limit])
  qed
qed

lemma fetch_all_error: "fetch_all e self limit end_date w = Inl err \<Longrightarrow> err = IndexError"
  by (auto simp: fetch_all_def split: if_splits sum.splits prod.splits dest: page_loop_error)

lemma strip_leading_zeros_error:
  "strip_leading_zeros bs = Inl err \<Longrightarrow> err = UnboundLocalError ''i''"
  by (auto simp: strip_leading_zeros_def split: option.splits)

lemma get_ohlc_data_limit_bound:
  "get_ohlc_data e self end_date start_date w \<noteq> Inl (UnboundLocalError ''limit'')"
  by (cases start_date)
     (auto simp: get_ohlc_data_def set_limit_assigned
      split: sum.splits prod.splits dest: fetch_all_error strip_leading_zeros_error)

lemma enumerate_break_assigned: "\<exists>j. enumerate_break (Some i) n bs = Some j"
  by (induction bs arbitrary: i n) auto

lemma enumerate_break_nonempty: "bs \<noteq> [] \<Longrightarrow> \<exists>j. enumerate_break None n bs = Some j"
  by (cases bs) (auto simp: enumerate_break_assigned)

lemma ib_get_ohlc_data_eq:
  "ib_get_ohlc_data e self (Some sd) (Some ed) w =
     (if time_gate_closed e self then Inr (self, w)
      else if get_bars e (ib_symbol self) ''5y'' ''1d'' = [] then Inl (KeyError ''t'')
      else Inr (keep_staged self
                  (filter (\<lambda>r. sd < ohlc_date r \<and> ohlc_date r < ed) (ib_rows e (ib_symbol self))),
                w\<lparr>requests := requests w @ [GetBars (ib_symbol self) ''5y'' ''1d'']\<rparr>))"
  by (simp add: ib_get_ohlc_data_def time_gate_closed_def keep_staged_def ib_rows_def Let_def
      conj_commute)

lemma cryptocompare_answer_eq:
  "cryptocompare_answer e self limit to_date =
     map (bar_of_raw e) (histoday e (base_currency (cc_instrument self))
        (quote_currency (cc_instrument self)) limit (toTs e to_date))"
  by (simp add: cryptocompare_answer_def rev_map)

lemma toTs_synthetic: "toTs (synthetic_env h) d div 86400 = d"
  by (simp add: toTs_def timestamp_def combine_def usec_per_day_def synthetic_env_sel)

lemma toTs_synthetic_eq: "toTs (synthetic_env h) d = d * 86400 + 21600"
  by (simp add: toTs_def timestamp_def combine_def usec_per_day_def synthetic_env_sel)

lemma btc_currencies:
  "base_currency (cc_instrument (CryptoCompareOHLC_init (synthetic_env h) ''BTCUSD'')) = ''BTC''"
  "quote_currency (cc_instrument (CryptoCompareOHLC_init (synthetic_env h) ''BTCUSD'')) = ''USD''"
  by (simp_all add: CryptoCompareOHLC_init_def synthetic_env_def BTCUSD_def)

lemma date_of_bar_of_raw:
  "date_of (fst (bar_of_raw (synthetic_env h) (flat_bar d))) = d"
  by (simp add: bar_of_raw_def flat_bar_def fromtimestamp_def date_of_def usec_per_day_def
      synthetic_env_sel)

lemma oldest_first_answer:
  "dates (cryptocompare_answer (synthetic_env oldest_first) self n to_date) = [to_date - n..to_date]"
  by (simp add: dates_def cryptocompare_answer_eq synthetic_env_sel oldest_first_def
      toTs_synthetic date_of_bar_of_raw o_def)

lemma dates_append: "dates (xs @ ys) = dates xs @ dates ys"
  by (simp add: dates_def)

lemma dates_drop: "dates (drop n xs) = drop n (dates xs)"
  by (simp add: dates_def drop_map)

lemma page_loop_step:
  "2000 < limit \<Longrightarrow> cryptocompare_answer e self 2000 to_date = b # bs \<Longrightarrow>
     page_loop e self limit to_date all_data w =
       page_loop e self (limit - 2000) (date_of (fst b) - 1) ((b # bs) @ all_data)
         (w\<lparr>requests := requests w @ [histoday_request e self 2000 to_date]\<rparr>)"
  by (simp add: page_loop.simps [of e self limit] request_cryptocompare_def)

lemma page_loop_stop:
  "\<not> 2000 < limit \<Longrightarrow> page_loop e self limit to_date all_data w = Inr (limit, to_date, all_data, w)"
  by (simp add: page_loop.simps [of e self limit])

subsection \<open>A store that is up to date\<close>

text \<open>
  Claim C4. When the latest stored bar of the instrument is dated today,
  \<^verbatim>\<open>update_ohlc_data\<close> of either variant returns with the updater and the world as they
  were: no upstream call is recorded and no row is written.
\<close>

theorem up_to_date_is_noop:
  "(date_of (ohlc_date r) = today \<longrightarrow>
      update_ohlc_data e self (Some r) today w = Inr (self, w)) \<and>
   (date_of (ohlc_date r) = date_of now \<longrightarrow>
      ib_update_ohlc_data e ib (Some r) now w = Inr (ib, w))"
  by (simp add: update_ohlc_data_def ib_update_ohlc_data_def)

theorem up_to_date_is_noop_witness:
  "date_of (ohlc_date (stored_row ''BTCUSD'' (20000 * usec_per_day + 3600000000))) = 20000 \<and>
   update_ohlc_data (synthetic_env oldest_first)
     (CryptoCompareOHLC_init (synthetic_env oldest_first) ''BTCUSD'')
     (Some (stored_row ''BTCUSD'' (20000 * usec_per_day + 3600000000))) 20000 empty_world
     = Inr (CryptoCompareOHLC_init (synthetic_env oldest_first) ''BTCUSD'', empty_world) \<and>
   date_of (ohlc_date (stored_row ''BTCUSD'' (20000 * usec_per_day + 3600000000)))
     = date_of (20000 * usec_per_day + 7200000000) \<and>
   ib_update_ohlc_data (synthetic_env oldest_first) (IBOHLC_init ''NVDA'')
     (Some (stored_row ''BTCUSD'' (20000 * usec_per_day + 3600000000)))
     (20000 * usec_per_day + 7200000000) empty_world
     = Inr (IBOHLC_init ''NVDA'', empty_world)"
  using up_to_date_is_noop [of "stored_row ''BTCUSD'' (20000 * usec_per_day + 3600000000)" 20000
      "synthetic_env oldest_first" "CryptoCompareOHLC_init (synthetic_env oldest_first) ''BTCUSD''"
      empty_world "20000 * usec_per_day + 7200000000" "IBOHLC_init ''NVDA''"]
  by (simp add: stored_row_def date_of_def usec_per_day_def)

subsection \<open>The guard on the vehicle\<close>

text \<open>
  Claim C8. For an instrument whose vehicle is not "crypto",
  \<^verbatim>\<open>CryptoCompareOHLC.get_ohlc_data\<close> returns at once whatever the two dates are: the
  world is unchanged (no upstream call) and so is the updater (\<^verbatim>\<open>data\<close> is not set).
\<close>

theorem not_crypto_returns_at_once:
  "vehicle (cc_instrument self) \<noteq> ''crypto'' \<Longrightarrow>
     get_ohlc_data e self end_date start_date w = Inr (self, w)"
  by (simp add: get_ohlc_data_def)

theorem not_crypto_returns_at_once_witness:
  "vehicle (cc_instrument (CryptoCompareOHLC_init (synthetic_env oldest_first) ''NVDA''))
     \<noteq> ''crypto'' \<and>
   get_ohlc_data (synthetic_env oldest_first)
      (CryptoCompareOHLC_init (synthetic_env oldest_first) ''NVDA'') 20000 (Some 19990) empty_world
     = Inr (CryptoCompareOHLC_init (synthetic_env oldest_first) ''NVDA'', empty_world)"
  using not_crypto_returns_at_once
     [of "CryptoCompareOHLC_init (synthetic_env oldest_first) ''NVDA''"
         "synthetic_env oldest_first" 20000 "Some 19990" empty_world]
  by (simp add: CryptoCompareOHLC_init_def synthetic_env_def NVDA_def)

subsection \<open>The factory\<close>

lemma lower_examples:
  "lower ''Crypto-Compare'' = ''crypto-compare''"
  "lower ''INTERACTIVE-Brokers'' = ''interactive-brokers''"
  "lower ''Yahoo'' = ''yahoo''"
  by code_simp+

text \<open>
  Claim C6. \<^verbatim>\<open>create_updater\<close> looks at the lower-case form of the source name only: a
  name that lower-cases to "crypto-compare" gives the crypto-vendor updater, one that
  lower-cases to "interactive-brokers" gives the brokerage updater, and any other name
  gives \<^verbatim>\<open>None\<close>, which is a value and not an error.
\<close>

theorem create_updater_by_lower_case_name:
  "(lower name = ''crypto-compare'' \<longrightarrow>
      create_updater e name symb = Some (CryptoCompare (CryptoCompareOHLC_init e symb))) \<and>
   (lower name = ''interactive-brokers'' \<longrightarrow>
      create_updater e name symb = Some (InteractiveBrokers (IBOHLC_init symb))) \<and>
   (lower name \<noteq> ''crypto-compare'' \<and> lower name \<noteq> ''interactive-brokers'' \<longrightarrow>
      create_updater e name symb = None)"
  by (simp add: create_updater_def)

theorem create_updater_by_lower_case_name_witness:
  "lower ''Crypto-Compare'' = ''crypto-compare'' \<and>
   create_updater (synthetic_env oldest_first) ''Crypto-Compare'' ''BTCUSD''
     = Some (CryptoCompare (CryptoCompareOHLC_init (synthetic_env oldest_first) ''BTCUSD'')) \<and>
   lower ''INTERACTIVE-Brokers'' = ''interactive-brokers'' \<and>
   create_updater (synthetic_env oldest_first) ''INTERACTIVE-Brokers'' ''NVDA''
     = Some (InteractiveBrokers (IBOHLC_init ''NVDA'')) \<and>
   lower ''Yahoo'' \<noteq> ''crypto-compare'' \<and> lower ''Yahoo'' \<noteq> ''interactive-brokers'' \<and>
   create_updater (synthetic_env oldest_first) ''Yahoo'' ''NVDA'' = None"
  using create_updater_by_lower_case_name
      [of "''Crypto-Compare''" "synthetic_env oldest_first" "''BTCUSD''"]
    create_updater_by_lower_case_name
      [of "''INTERACTIVE-Brokers''" "synthetic_env oldest_first" "''NVDA''"]
    create_updater_by_lower_case_name
      [of "''Yahoo''" "synthetic_env oldest_first" "''NVDA''"]
  by (simp add: lower_examples)

subsection \<open>The day count is always set\<close>

text \<open>
  Claim C7, amended. In \<^verbatim>\<open>CryptoCompareOHLC.get_ohlc_data\<close> the variable \<^verbatim>\<open>limit\<close> is
  assigned on every path that reaches the comparison with the page size: from
  \<^verbatim>\<open>end_date - start_date\<close> when a start date is given, from the vendor's earliest date
  when it is \<^verbatim>\<open>None\<close>. The function never fails on an unassigned \<^verbatim>\<open>limit\<close>.
\<close>

theorem limit_is_always_assigned:
  "fst (set_limit e end_date start_date w) =
     Some (case start_date of
             Some sd \<Rightarrow> end_date - sd
           | None \<Rightarrow> end_date - date_of (fromtimestamp e (data_available_from e))) \<and>
   get_ohlc_data e self end_date start_date w \<noteq> Inl (UnboundLocalError ''limit'')"
  by (simp add: get_ohlc_data_limit_bound set_limit_assigned split: option.splits)

text \<open>
  The claim as it was stated, that some input of a crypto instrument reaches the
  comparison with \<^verbatim>\<open>limit\<close> unassigned, is false.
\<close>

theorem limit_unassigned_counterexample:
  "\<not> (\<exists>e self end_date start_date w.
         vehicle (cc_instrument self) = ''crypto'' \<and>
         get_ohlc_data e self end_date start_date w = Inl (UnboundLocalError ''limit''))"
  by (simp add: get_ohlc_data_limit_bound)

subsection \<open>Stripping needs a non-empty list\<close>

text \<open>
  Claim C9. The step that strips the leading zero tuples raises on the empty list,
  because the loop variable \<^verbatim>\<open>i\<close> is never assigned, and on every non-empty list it
  returns a suffix of the list. The empty list is reached in \<^verbatim>\<open>get_ohlc_data\<close> when
  the vendor answers the single request of a first fetch with no point.
\<close>

theorem strip_leading_zeros_needs_nonempty:
  "strip_leading_zeros [] = Inl (UnboundLocalError ''i'') \<and>
   (all_data \<noteq> [] \<longrightarrow>
      (\<exists>kept. strip_leading_zeros all_data = Inr kept \<and> suffix kept all_data)) \<and>
   (vehicle (cc_instrument self) = ''crypto'' \<and>
    end_date - date_of (fromtimestamp e (data_available_from e)) \<le> 2000 \<and>
    cryptocompare_answer e self
      (end_date - date_of (fromtimestamp e (data_available_from e))) end_date = [] \<longrightarrow>
      get_ohlc_data e self end_date None w = Inl (UnboundLocalError ''i''))"
proof (intro conjI impI)
  show "strip_leading_zeros [] = Inl (UnboundLocalError ''i'')"
    by (simp add: strip_leading_zeros_def)
next
  assume "all_data \<noteq> []"
  then obtain j where "enumerate_break None 0 all_data = Some j"
    using enumerate_break_nonempty by blast
  then have "strip_leading_zeros all_data = Inr (drop j all_data)"
    by (simp add: strip_leading_zeros_def)
  then show "\<exists>kept. strip_leading_zeros all_data = Inr kept \<and> suffix kept all_data"
    by (simp add: suffix_drop)
next
  assume "vehicle (cc_instrument self) = ''crypto'' \<and>
    end_date - date_of (fromtimestamp e (data_available_from e)) \<le> 2000 \<and>
    cryptocompare_answer e self
      (end_date - date_of (fromtimestamp e (data_available_from e))) end_date = []"
  then show "get_ohlc_data e self end_date None w = Inl (UnboundLocalError ''i'')"
    by (simp add: get_ohlc_data_def set_limit_assigned fetch_all_def request_cryptocompare_def
        strip_leading_zeros_def)
qed

theorem strip_leading_zeros_needs_nonempty_witness:
  "[(0, float_of_int 0, float_of_int 0, float_of_int 0, float_of_int 0),
    (1, float_of_int 2, float_of_int 3, float_of_int 1, float_of_int 2)] \<noteq> ([] :: bar list) \<and>
   strip_leading_zeros
     [(0, float_of_int 0, float_of_int 0, float_of_int 0, float_of_int 0),
      (1, float_of_int 2, float_of_int 3, float_of_int 1, float_of_int 2)]
     = Inr [(1, float_of_int 2, float_of_int 3, float_of_int 1, float_of_int 2)] \<and>
   suffix [(1, float_of_int 2, float_of_int 3, float_of_int 1, float_of_int 2)]
     [(0, float_of_int 0, float_of_int 0, float_of_int 0, float_of_int 0),
      (1, float_of_int 2, float_of_int 3, float_of_int 1, float_of_int 2)] \<and>
   vehicle (cc_instrument (CryptoCompareOHLC_init (synthetic_env silent) ''BTCUSD''))
     = ''crypto'' \<and>
   get_ohlc_data (synthetic_env silent) (CryptoCompareOHLC_init (synthetic_env silent) ''BTCUSD'')
     14252 None empty_world = Inl (UnboundLocalError ''i'')"
proof -
  let ?e = "synthetic_env silent"
  let ?self = "CryptoCompareOHLC_init ?e ''BTCUSD''"
  let ?z = "(0 :: datetime, float_of_int 0, float_of_int 0, float_of_int 0, float_of_int 0)"
  let ?b = "(1 :: datetime, float_of_int 2, float_of_int 3, float_of_int 1, float_of_int 2)"
  have silent: "cryptocompare_answer ?e ?self
      (14252 - date_of (fromtimestamp ?e (data_available_from ?e))) 14252 = []"
    by (simp add: cryptocompare_answer_def silent_def synthetic_env_sel)
  have strip: "strip_leading_zeros [?z, ?b] = Inr [?b]"
    by (simp add: strip_leading_zeros_def float_of_int_def round_float64_small)
  show ?thesis
    using strip_leading_zeros_needs_nonempty [of "[?z, ?b]" ?self 14252 ?e empty_world]
      silent strip
    by (simp add: btc_is_crypto first_date_synthetic suffix_def synthetic_env_sel)
qed

subsection \<open>The brokerage variant\<close>

text \<open>
  Claim C5. The filter of \<^verbatim>\<open>IBOHLC.get_ohlc_data\<close> keeps exactly the rows dated
  strictly after \<^verbatim>\<open>start_date\<close> and strictly before \<^verbatim>\<open>end_date\<close>. For four fetched
  bars with increasing timestamps and the window from the first to the third, the
  frame kept is exactly the second bar.
\<close>

theorem ib_filter_is_strict:
  assumes "\<not> time_gate_closed e self"
    and "get_bars e (ib_symbol self) ''5y'' ''1d'' = bars"
    and "bars \<noteq> []"
  shows "\<exists>self' w'.
      ib_get_ohlc_data e self (Some start_date) (Some end_date) w = Inr (self', w') \<and>
      ib_df self' =
        (let kept = filter (\<lambda>r. start_date < ohlc_date r \<and> ohlc_date r < end_date)
                      (map (row_of_ib_bar e (ib_symbol self)) bars)
         in if kept = [] then ib_df self else Some kept) \<and>
      (bars = [b0, b1, b2, b3] \<and> ib_t b0 < ib_t b1 \<and> ib_t b1 < ib_t b2 \<and> ib_t b2 < ib_t b3 \<and>
       start_date = ohlc_date (row_of_ib_bar e (ib_symbol self) b0) \<and>
       end_date = ohlc_date (row_of_ib_bar e (ib_symbol self) b2) \<longrightarrow>
         ib_df self' = Some [row_of_ib_bar e (ib_symbol self) b1])"
  using assms
  by (auto simp: ib_get_ohlc_data_eq keep_staged_def ib_rows_def Let_def row_of_ib_bar_def)

theorem ib_filter_is_strict_witness:
  "\<not> time_gate_closed (synthetic_env oldest_first) (IBOHLC_init ''NVDA'') \<and>
   get_bars (synthetic_env oldest_first) (ib_symbol (IBOHLC_init ''NVDA'')) ''5y'' ''1d''
     = four_days \<and>
   four_days \<noteq> [] \<and>
   (\<exists>self' w'.
      ib_get_ohlc_data (synthetic_env oldest_first) (IBOHLC_init ''NVDA'')
        (Some (20000 * usec_per_day)) (Some (20002 * usec_per_day)) empty_world
        = Inr (self', w') \<and>
      ib_df self' = Some [row_of_ib_bar (synthetic_env oldest_first) ''NVDA'' (day_bar 20001)])"
proof -
  let ?e = "synthetic_env oldest_first"
  let ?self = "IBOHLC_init ''NVDA''"
  have gate: "\<not> time_gate_closed ?e ?self"
    by (simp add: time_gate_closed_def synthetic_env_sel)
  have bars: "get_bars ?e (ib_symbol ?self) ''5y'' ''1d'' = four_days"
    by (simp add: synthetic_env_sel)
  have ne: "four_days \<noteq> []"
    by (simp add: four_days_def)
  have name: "ib_symbol ?self = ''NVDA''"
    by (simp add: IBOHLC_init_def)
  have win: "four_days = [day_bar 20000, day_bar 20001, day_bar 20002, day_bar 20003] \<and>
      ib_t (day_bar 20000) < ib_t (day_bar 20001) \<and>
      ib_t (day_bar 20001) < ib_t (day_bar 20002) \<and>
      ib_t (day_bar 20002) < ib_t (day_bar 20003) \<and>
      20000 * usec_per_day = ohlc_date (row_of_ib_bar ?e (ib_symbol ?self) (day_bar 20000)) \<and>
      20002 * usec_per_day = ohlc_date (row_of_ib_bar ?e (ib_symbol ?self) (day_bar 20002))"
    by (simp add: four_days_def day_bar_def row_of_ib_bar_def usec_per_day_def)
  show ?thesis
    using ib_filter_is_strict [OF gate bars ne, of "20000 * usec_per_day" "20002 * usec_per_day"
        empty_world "day_bar 20000" "day_bar 20001" "day_bar 20002" "day_bar 20003"]
      gate bars ne win name
    by auto
qed

text \<open>
  Claim C10. Whatever \<^verbatim>\<open>start_date\<close> and \<^verbatim>\<open>end_date\<close> are, \<^verbatim>\<open>IBOHLC.get_ohlc_data\<close>
  makes the same upstream request, for period "5y" and bars of "1d" (or none behind
  a closed gate); the two dates only filter the rows of that answer. So a new updater
  of an instrument with no stored bar writes the rows of the five-year answer that lie
  between 2000-01-01 and twenty minutes ago, and nothing older than that answer.
\<close>

theorem ib_lookback_is_fixed:
  "ib_get_ohlc_data e self start_date end_date w =
     (if time_gate_closed e self then Inr (self, w)
      else if get_bars e (ib_symbol self) ''5y'' ''1d'' = [] then Inl (KeyError ''t'')
      else Inr (keep_staged self
                  (filter (in_window start_date end_date) (ib_rows e (ib_symbol self))),
                w\<lparr>requests := requests w @ [GetBars (ib_symbol self) ''5y'' ''1d'']\<rparr>)) \<and>
   ib_update_ohlc_data e (IBOHLC_init symb) None now w =
     (if time_gate_closed e (IBOHLC_init symb) then Inr (IBOHLC_init symb, w)
      else if get_bars e symb ''5y'' ''1d'' = [] then Inl (KeyError ''t'')
      else
        (let kept = filter (in_window (Some datetime_2000_01_01)
                              (Some (now - timedelta_minutes 20))) (ib_rows e symb)
         in Inr (keep_staged (IBOHLC_init symb) kept,
                 w\<lparr>requests := requests w @ [GetBars symb ''5y'' ''1d''],
                   store := store w @ kept\<rparr>)))"
proof
  show "ib_get_ohlc_data e self start_date end_date w =
     (if time_gate_closed e self then Inr (self, w)
      else if get_bars e (ib_symbol self) ''5y'' ''1d'' = [] then Inl (KeyError ''t'')
      else Inr (keep_staged self
                  (filter (in_window start_date end_date) (ib_rows e (ib_symbol self))),
                w\<lparr>requests := requests w @ [GetBars (ib_symbol self) ''5y'' ''1d'']\<rparr>))"
    by (cases start_date; cases end_date)
       (simp_all add: ib_get_ohlc_data_def time_gate_closed_def keep_staged_def ib_rows_def
          Let_def in_window_def [abs_def] conj_commute)
  show "ib_update_ohlc_data e (IBOHLC_init symb) None now w =
     (if time_gate_closed e (IBOHLC_init symb) then Inr (IBOHLC_init symb, w)
      else if get_bars e symb ''5y'' ''1d'' = [] then Inl (KeyError ''t'')
      else
        (let kept = filter (in_window (Some datetime_2000_01_01)
                              (Some (now - timedelta_minutes 20))) (ib_rows e symb)
         in Inr (keep_staged (IBOHLC_init symb) kept,
                 w\<lparr>requests := requests w @ [GetBars symb ''5y'' ''1d''],
                   store := store w @ kept\<rparr>)))"
    by (simp add: ib_get_ohlc_data_eq ib_update_ohlc_data_def ib_fetch_and_insert_def
        ib_insert_ohlc_data_def keep_staged_def IBOHLC_init_def Let_def in_window_def [abs_def])
qed

subsection \<open>The first fetch strips the leading zero tuples\<close>

lemma all_zero_sum: "all_zero b \<Longrightarrow> eq_zero (ohlc_sum b)"
  by (cases b) (simp add: fadd_zero float_of_int_def)

lemma nonnegative_sum:
  assumes "nonnegative_bar b" and "\<not> all_zero b"
  shows "\<not> eq_zero (ohlc_sum b)"
proof -
  obtain d op hi lo cl where b: "b = (d, op, hi, lo, cl)"
    by (cases b)
  let ?s1 = "fadd (float_of_int 0) op"
  let ?s2 = "fadd ?s1 hi"
  let ?s3 = "fadd ?s2 lo"
  have nn: "not_negative op" "not_negative hi" "not_negative lo" "not_negative cl"
    using assms(1) b by simp_all
  have s1: "not_negative ?s1 \<and> (eq_zero ?s1 \<longrightarrow> eq_zero op)"
    using fadd_not_negative [of "float_of_int 0" op] nn by (simp add: float_of_int_def)
  have s2: "not_negative ?s2 \<and> (eq_zero ?s2 \<longrightarrow> eq_zero ?s1 \<and> eq_zero hi)"
    using fadd_not_negative [of ?s1 hi] s1 nn by simp
  have s3: "not_negative ?s3 \<and> (eq_zero ?s3 \<longrightarrow> eq_zero ?s2 \<and> eq_zero lo)"
    using fadd_not_negative [of ?s2 lo] s2 nn by simp
  have s4: "eq_zero (fadd ?s3 cl) \<longrightarrow> eq_zero ?s3 \<and> eq_zero cl"
    using fadd_not_negative [of ?s3 cl] s3 nn by simp
  show ?thesis
    using s1 s2 s3 s4 assms(2) b by auto
qed

lemma enumerate_break_zeros:
  "list_all all_zero zeros \<Longrightarrow> \<not> eq_zero (ohlc_sum b) \<Longrightarrow>
     enumerate_break i n (zeros @ b # rest) = Some (n + length zeros)"
  by (induction zeros arbitrary: i n) (simp_all add: all_zero_sum)

lemma strip_leading_zeros_zeros:
  "list_all all_zero zeros \<Longrightarrow> \<not> eq_zero (ohlc_sum b) \<Longrightarrow>
     strip_leading_zeros (zeros @ b # rest) = Inr (b # rest)"
  by (simp add: strip_leading_zeros_def enumerate_break_zeros)

lemma first_fetch_keeps_from_nonzero_sum:
  assumes "vehicle (cc_instrument self) = ''crypto''"
    and "fetch_all e self (end_date - date_of (fromtimestamp e (data_available_from e))) end_date
           (w\<lparr>requests := requests w @ [BlockchainList]\<rparr>) = Inr (zeros @ b # rest, w')"
    and "list_all all_zero zeros"
    and "\<not> eq_zero (ohlc_sum b)"
  shows "get_ohlc_data e self end_date None w = Inr (self\<lparr>cc_data := Some (b # rest)\<rparr>, w')"
  using assms
  by (simp add: get_ohlc_data_def set_limit_assigned strip_leading_zeros_zeros)

lemma first_fetch_strips_leading_zeros_nonnegative:
  assumes "vehicle (cc_instrument self) = ''crypto''"
    and "fetch_all e self (end_date - date_of (fromtimestamp e (data_available_from e))) end_date
           (w\<lparr>requests := requests w @ [BlockchainList]\<rparr>) = Inr (zeros @ b # rest, w')"
    and "list_all all_zero zeros"
    and "\<not> all_zero b"
    and "nonnegative_bar b"
  shows "get_ohlc_data e self end_date None w = Inr (self\<lparr>cc_data := Some (b # rest)\<rparr>, w')"
  using first_fetch_keeps_from_nonzero_sum [OF assms(1,2,3)] nonnegative_sum [OF assms(5,4)]
  by simp

lemma genesis_answer:
  "cryptocompare_answer (synthetic_env genesis)
      (CryptoCompareOHLC_init (synthetic_env genesis) ''BTCUSD'') 5 14252 =
   map (bar_of_raw (synthetic_env genesis))
     [zero_bar 14247, zero_bar 14248, zero_bar 14249, flat_bar 14250, flat_bar 14251, flat_bar 14252]"
  by (simp add: cryptocompare_answer_eq synthetic_env_sel genesis_def toTs_synthetic)

lemma first_fetch_genesis:
  "get_ohlc_data (synthetic_env genesis) (CryptoCompareOHLC_init (synthetic_env genesis) ''BTCUSD'')
       14252 None empty_world =
     Inr ((CryptoCompareOHLC_init (synthetic_env genesis) ''BTCUSD'')
            \<lparr>cc_data := Some (map (bar_of_raw (synthetic_env genesis))
                               [flat_bar 14250, flat_bar 14251, flat_bar 14252])\<rparr>,
          \<lparr>requests = [BlockchainList, Histoday ''BTC'' ''USD'' 5 1231394400], store = []\<rparr>)"
proof -
  let ?e = "synthetic_env genesis"
  let ?self = "CryptoCompareOHLC_init ?e ''BTCUSD''"
  let ?w' = "\<lparr>requests = [BlockchainList, Histoday ''BTC'' ''USD'' 5 1231394400], store = []\<rparr>"
  have zeros: "list_all all_zero
      (map (bar_of_raw ?e) [zero_bar 14247, zero_bar 14248, zero_bar 14249])"
    by (simp add: bar_of_raw_def zero_bar_def float_of_int_def)
  have nonzero: "\<not> all_zero (bar_of_raw ?e (flat_bar 14250))"
    and nonneg: "nonnegative_bar (bar_of_raw ?e (flat_bar 14250))"
    by (simp_all add: bar_of_raw_def flat_bar_def float_of_int_def)
  have fetch: "fetch_all ?e ?self (14252 - date_of (fromtimestamp ?e (data_available_from ?e)))
      14252 (empty_world\<lparr>requests := requests empty_world @ [BlockchainList]\<rparr>) =
      Inr (map (bar_of_raw ?e) [zero_bar 14247, zero_bar 14248, zero_bar 14249] @
           bar_of_raw ?e (flat_bar 14250) # map (bar_of_raw ?e) [flat_bar 14251, flat_bar 14252],
           ?w')"
    by (simp add: first_date_synthetic fetch_all_def request_cryptocompare_def genesis_answer
        histoday_request_def btc_currencies toTs_synthetic_eq empty_world_def)
  show ?thesis
    using first_fetch_strips_leading_zeros_nonnegative [OF btc_is_crypto fetch zeros nonzero nonneg]
    by simp
qed



subsection \<open>One day behind\<close>

lemma yesterday_example: "date_of (ohlc_date (stored_row ''BTCUSD'' (19999 * usec_per_day))) = 20000 - 1"
  by (simp add: stored_row_def date_of_def usec_per_day_def)

text \<open>
  Claim C2, amended. For an instrument whose vehicle is "crypto" and whose latest
  stored bar is dated yesterday, with a vendor that answers the request of size 1
  ending today with the two points of yesterday and today,
  \<^verbatim>\<open>CryptoCompareOHLC.update_ohlc_data\<close> makes that one request, drops the first tuple
  of the answer and appends exactly one row, dated today.
\<close>

theorem yesterday_appends_today:
  assumes "vehicle (cc_instrument self) = ''crypto''"
    and "date_of (ohlc_date r) = today - 1"
    and "dates (cryptocompare_answer e self 1 today) = [today - 1, today]"
  shows "\<exists>row.
      update_ohlc_data e self (Some r) today w =
        Inr (self\<lparr>cc_data := Some (drop 1 (cryptocompare_answer e self 1 today))\<rparr>,
             w\<lparr>requests := requests w @ [histoday_request e self 1 today],
               store := store w @ [row]\<rparr>) \<and>
      row = OHLC_of_bar e (cc_symbol self) (cryptocompare_answer e self 1 today ! 1) \<and>
      date_of (ohlc_date row) = today"
proof -
  obtain b0 b1 where ans: "cryptocompare_answer e self 1 today = [b0, b1]"
    and d1: "date_of (fst b1) = today"
    using assms(3) by (auto simp: dates_def)
  have "date_of (ohlc_date (OHLC_of_bar e (cc_symbol self) b1)) = today"
    using d1 by (cases b1) (simp add: OHLC_of_bar_def)
  then show ?thesis
    using assms(1,2) ans
    by (simp add: update_ohlc_data_def get_then_insert_def get_ohlc_data_def set_limit_assigned
        fetch_all_def request_cryptocompare_def insert_ohlc_data_def)
qed

theorem yesterday_appends_today_witness:
  "vehicle (cc_instrument (CryptoCompareOHLC_init (synthetic_env oldest_first) ''BTCUSD'')) = ''crypto'' \<and>
   date_of (ohlc_date (stored_row ''BTCUSD'' (19999 * usec_per_day))) = 20000 - 1 \<and>
   dates (cryptocompare_answer (synthetic_env oldest_first)
            (CryptoCompareOHLC_init (synthetic_env oldest_first) ''BTCUSD'') 1 20000)
     = [20000 - 1, 20000] \<and>
   (\<exists>self'.
      update_ohlc_data (synthetic_env oldest_first)
        (CryptoCompareOHLC_init (synthetic_env oldest_first) ''BTCUSD'')
        (Some (stored_row ''BTCUSD'' (19999 * usec_per_day))) 20000 empty_world =
      Inr (self',
           \<lparr>requests = [Histoday ''BTC'' ''USD'' 1 1728021600],
            store = [OHLC_of_bar (synthetic_env oldest_first) ''BTCUSD''
                       (bar_of_raw (synthetic_env oldest_first) (flat_bar 20000))]\<rparr>))"
proof -
  let ?e = "synthetic_env oldest_first"
  let ?self = "CryptoCompareOHLC_init ?e ''BTCUSD''"
  have ans: "dates (cryptocompare_answer ?e ?self 1 20000) = [20000 - 1, 20000]"
    by (simp add: oldest_first_answer)
  have bars: "cryptocompare_answer ?e ?self 1 20000 =
      [bar_of_raw ?e (flat_bar 19999), bar_of_raw ?e (flat_bar 20000)]"
    by (simp add: cryptocompare_answer_eq synthetic_env_sel oldest_first_def toTs_synthetic)
  have name: "cc_symbol ?self = ''BTCUSD''"
    by (simp add: CryptoCompareOHLC_init_def)
  show ?thesis
    using yesterday_appends_today [OF btc_is_crypto yesterday_example ans, of empty_world]
      ans bars name
    by (auto simp: btc_is_crypto yesterday_example histoday_request_def btc_currencies
        toTs_synthetic_eq empty_world_def)
qed

text \<open>
  The claim as it was stated, for every instrument, is false: for an instrument that
  is not crypto \<^verbatim>\<open>get_ohlc_data\<close> returns before it sets \<^verbatim>\<open>self.data\<close>, and
  \<^verbatim>\<open>insert_ohlc_data\<close> raises on the missing attribute; nothing is appended.
\<close>

theorem not_crypto_yesterday_counterexample:
  "update_ohlc_data (synthetic_env oldest_first)
     (CryptoCompareOHLC_init (synthetic_env oldest_first) ''NVDA'')
     (Some (stored_row ''NVDA'' (19999 * usec_per_day))) 20000 empty_world
   = Inl (AttributeError ''data'')"
  by (simp add: update_ohlc_data_def get_then_insert_def get_ohlc_data_def insert_ohlc_data_def
      CryptoCompareOHLC_init_def synthetic_env_def NVDA_def stored_row_def date_of_def
      usec_per_day_def)

subsection \<open>Stitching the pages of a long window\<close>

lemma fetch_all_5000:
  assumes "cryptocompare_answer e self 2000 end_date = b1 # bs1"
    and "cryptocompare_answer e self 2000 (date_of (fst b1) - 1) = b2 # bs2"
  shows "\<exists>w'. fetch_all e self 5000 end_date w =
      Inr (cryptocompare_answer e self 1000 (date_of (fst b2) - 1) @ (b2 # bs2) @ (b1 # bs1), w')"
  using assms
  by (simp add: fetch_all_def page_loop_step page_loop_stop request_cryptocompare_def)

lemma contiguous_upto: "contiguous [i..j]"
proof (induction i j rule: upto.induct)
  case (1 i j)
  show ?case
  proof (cases "i + 1 \<le> j")
    case True
    then have "[i..j] = i # (i + 1) # [i + 1 + 1..j]"
      by (simp add: upto_rec1 [of i j] upto_rec1 [of "i + 1" j])
    moreover have "contiguous [i + 1..j]"
      using True "1.IH" by simp
    ultimately show ?thesis
      using True by (simp add: upto_rec1 [of "i + 1" j])
  next
    case False
    then have "[i..j] = [] \<or> [i..j] = [i]"
      by (cases "i \<le> j") (simp_all add: upto_rec1 [of i j])
    then show ?thesis by auto
  qed
qed

lemma answer_oldest_first_head:
  assumes "dates (cryptocompare_answer e self n to_date) = [to_date - n..to_date]" and "0 \<le> n"
  shows "\<exists>b bs. cryptocompare_answer e self n to_date = b # bs \<and> date_of (fst b) = to_date - n"
proof -
  have "[to_date - n..to_date] = (to_date - n) # [to_date - n + 1..to_date]"
    using assms(2) by (simp add: upto_rec1)
  then show ?thesis
    using assms(1) by (auto simp: dates_def)
qed

lemma page_loop_oldest_first:
  "\<forall>n to_date. dates (cryptocompare_answer e self n to_date) = [to_date - n..to_date] \<Longrightarrow>
   to_date \<le> end_date \<Longrightarrow> dates all_data = [to_date + 1..end_date] \<Longrightarrow>
     \<exists>k all' w'. 0 \<le> k \<and>
        page_loop e self limit to_date all_data w =
          Inr (limit - 2000 * k, to_date - 2001 * k, all', w') \<and>
        dates all' = [to_date - 2001 * k + 1..end_date] \<and>
        limit - 2000 * k \<le> 2000 \<and> (2000 < limit \<longrightarrow> 0 < limit - 2000 * k)"
proof (induction e self limit to_date all_data w rule: page_loop.induct)
  case (1 e self limit to_date all_data w)
  note H = "1.prems"(1)
  show ?case
  proof (cases "2000 < limit")
    case False
    then have "page_loop e self limit to_date all_data w = Inr (limit, to_date, all_data, w)"
      by (rule page_loop_stop)
    then show ?thesis
      using False "1.prems"(3) by (intro exI [of _ 0]) simp
  next
    case True
    let ?w1 = "w\<lparr>requests := requests w @ [histoday_request e self 2000 to_date]\<rparr>"
    have page: "dates (cryptocompare_answer e self 2000 to_date) = [to_date - 2000..to_date]"
      using H by blast
    then obtain b bs where ans: "cryptocompare_answer e self 2000 to_date = b # bs"
      and first: "date_of (fst b) = to_date - 2000"
      using answer_oldest_first_head [of e self 2000 to_date] by auto
    have req: "(b # bs, ?w1) = request_cryptocompare e self 2000 to_date w"
      by (simp add: request_cryptocompare_def ans)
    have le: "date_of (fst b) - 1 \<le> end_date"
      using first "1.prems"(2) by simp
    have "dates ((b # bs) @ all_data) = [to_date - 2000..to_date] @ [to_date + 1..end_date]"
      using page ans "1.prems"(3) dates_append [of "b # bs" all_data] by simp
    also have "\<dots> = [to_date - 2000..end_date]"
      using "1.prems"(2) by (simp add: upto_split2 [of "to_date - 2000" to_date end_date])
    finally have inv: "dates ((b # bs) @ all_data) = [date_of (fst b) - 1 + 1..end_date]"
      using first by simp
    obtain k all' w' where k: "0 \<le> k"
      and loop: "page_loop e self (limit - 2000) (date_of (fst b) - 1) ((b # bs) @ all_data) ?w1 =
          Inr (limit - 2000 - 2000 * k, date_of (fst b) - 1 - 2001 * k, all', w')"
      and dts: "dates all' = [date_of (fst b) - 1 - 2001 * k + 1..end_date]"
      and small: "limit - 2000 - 2000 * k \<le> 2000"
      and pos: "2000 < limit - 2000 \<longrightarrow> 0 < limit - 2000 - 2000 * k"
      using "1.IH" [OF True req refl H le inv] by blast
    have pos': "0 < limit - 2000 - 2000 * k"
    proof (cases "2000 < limit - 2000")
      case True
      with pos show ?thesis by simp
    next
      case False
      then have "page_loop e self (limit - 2000) (date_of (fst b) - 1) ((b # bs) @ all_data) ?w1 =
          Inr (limit - 2000, date_of (fst b) - 1, (b # bs) @ all_data, ?w1)"
        by (rule page_loop_stop)
      with loop have "k = 0" by simp
      with True show ?thesis by simp
    qed
    have fb: "date_of (fst b) - 1 = to_date - 2001"
      using first by simp
    have eq1: "limit - 2000 - 2000 * k = limit - 2000 * (k + 1)"
      and eq2: "to_date - 2001 - 2001 * k = to_date - 2001 * (k + 1)"
      by (simp_all add: algebra_simps)
    have "page_loop e self limit to_date all_data w =
        Inr (limit - 2000 * (k + 1), to_date - 2001 * (k + 1), all', w')"
      using loop [unfolded fb eq1 eq2] page_loop_step [OF True ans, unfolded fb, of all_data w]
      by simp
    moreover have "dates all' = [to_date - 2001 * (k + 1) + 1..end_date]"
      using dts [unfolded fb eq2] .
    moreover have "limit - 2000 * (k + 1) \<le> 2000" "0 < limit - 2000 * (k + 1)"
      using small pos' unfolding eq1 by simp_all
    ultimately show ?thesis
      using k by (intro exI [of _ "k + 1"]) auto
  qed
qed

lemma stitched_window_oldest_first:
  assumes crypto: "vehicle (cc_instrument self) = ''crypto''"
    and H: "\<forall>n to_date. dates (cryptocompare_answer e self n to_date) = [to_date - n..to_date]"
    and big: "2000 < limit"
  shows "\<exists>k. 0 \<le> k \<and> 0 < limit - 2000 * k \<and> limit - 2000 * k \<le> 2000 \<and>
     staged_dates e self end_date (Some (end_date - limit)) w =
       Some [end_date - limit - k + 1..end_date]"
proof -
  have "dates [] = [end_date + 1..end_date]"
    by (simp add: dates_def)
  then obtain k all' w' where k: "0 \<le> k"
    and loop: "page_loop e self limit end_date [] w =
        Inr (limit - 2000 * k, end_date - 2001 * k, all', w')"
    and dts: "dates all' = [end_date - 2001 * k + 1..end_date]"
    and small: "limit - 2000 * k \<le> 2000"
    and pos: "0 < limit - 2000 * k"
    using page_loop_oldest_first
        [where to_date = end_date and end_date = end_date and all_data = "[]"
           and limit = limit and w = w, OF H order_refl] big
    by blast
  let ?last = "cryptocompare_answer e self (limit - 2000 * k) (end_date - 2001 * k)"
  have first: "end_date - 2001 * k - (limit - 2000 * k) = end_date - limit - k"
    by (simp add: algebra_simps)
  have "end_date - limit - k \<le> end_date - 2001 * k" "end_date - 2001 * k \<le> end_date"
    using k pos by simp_all
  then have split: "[end_date - limit - k..end_date - 2001 * k] @
      [end_date - 2001 * k + 1..end_date] = [end_date - limit - k..end_date]"
    by (rule upto_split2 [symmetric])
  have "dates ?last = [end_date - limit - k..end_date - 2001 * k]"
    using H first by metis
  then have all: "dates (?last @ all') = [end_date - limit - k..end_date]"
    using dts split by (simp only: dates_append)
  have "end_date - limit - k \<le> end_date"
    using k big by simp
  then have "drop 1 [end_date - limit - k..end_date] = [end_date - limit - k + 1..end_date]"
    by (simp add: upto_rec1 [of "end_date - limit - k" end_date])
  then have "dates (drop 1 (?last @ all')) = [end_date - limit - k + 1..end_date]"
    using all by (simp only: dates_drop)
  moreover have "get_ohlc_data e self end_date (Some (end_date - limit)) w =
      Inr (self\<lparr>cc_data := Some (drop 1 (?last @ all'))\<rparr>,
           w'\<lparr>requests := requests w' @
              [histoday_request e self (limit - 2000 * k) (end_date - 2001 * k)]\<rparr>)"
    using crypto big loop pos
    by (simp add: get_ohlc_data_def set_limit_assigned fetch_all_def request_cryptocompare_def)
  ultimately have "staged_dates e self end_date (Some (end_date - limit)) w =
      Some [end_date - limit - k + 1..end_date]"
    by (simp add: staged_dates_def)
  then show ?thesis
    using k pos small by blast
qed

lemma window_5000_oldest_first:
  assumes "vehicle (cc_instrument self) = ''crypto''"
    and "\<forall>n to_date. dates (cryptocompare_answer e self n to_date) = [to_date - n..to_date]"
  shows "staged_dates e self end_date (Some (end_date - 5000)) w = Some [end_date - 5001..end_date]"
proof -
  obtain k where "0 \<le> k" "0 < 5000 - 2000 * k" "5000 - 2000 * k \<le> 2000"
    and staged: "staged_dates e self end_date (Some (end_date - 5000)) w =
       Some [end_date - 5000 - k + 1..end_date]"
    using stitched_window_oldest_first [OF assms, of 5000 end_date w] by auto
  then have "k = 2" by arith
  with staged show ?thesis by simp
qed

lemma newest_first_answer:
  "dates (cryptocompare_answer (synthetic_env newest_first) self n to_date)
     = rev [to_date - n..to_date]"
  by (simp add: dates_def cryptocompare_answer_eq synthetic_env_sel newest_first_def
      toTs_synthetic date_of_bar_of_raw o_def rev_map)

lemma newest_first_head:
  assumes "0 \<le> n"
  shows "\<exists>b bs. cryptocompare_answer (synthetic_env newest_first) self n to_date = b # bs \<and>
     date_of (fst b) = to_date"
proof -
  have "rev [to_date - n..to_date] = to_date # rev [to_date - n..to_date - 1]"
    using assms by (simp add: upto_rec2 [of "to_date - n" to_date])
  then show ?thesis
    using newest_first_answer [of self n to_date] by (auto simp: dates_def)
qed

lemma newest_first_window_5000:
  "staged_dates (synthetic_env newest_first)
      (CryptoCompareOHLC_init (synthetic_env newest_first) ''BTCUSD'') 20000 (Some 15000) w =
   Some (drop 1 (rev [18998..19998] @ rev [17999..19999] @ rev [18000..20000]))"
proof -
  let ?e = "synthetic_env newest_first"
  let ?self = "CryptoCompareOHLC_init ?e ''BTCUSD''"
  obtain b1 bs1 where p1: "cryptocompare_answer ?e ?self 2000 20000 = b1 # bs1"
    and d1: "date_of (fst b1) = 20000"
    using newest_first_head [of 2000 ?self 20000] by auto
  obtain b2 bs2 where p2: "cryptocompare_answer ?e ?self 2000 19999 = b2 # bs2"
    and d2: "date_of (fst b2) = 19999"
    using newest_first_head [of 2000 ?self 19999] by auto
  obtain w' where fetch: "fetch_all ?e ?self 5000 20000 w =
      Inr (cryptocompare_answer ?e ?self 1000 19998 @ (b2 # bs2) @ (b1 # bs1), w')"
    using fetch_all_5000 [of ?e ?self 20000 b1 bs1 b2 bs2 w] p1 p2 d1 d2 by auto
  have "dates (cryptocompare_answer ?e ?self 1000 19998 @ (b2 # bs2) @ (b1 # bs1)) =
      rev [18998..19998] @ rev [17999..19999] @ rev [18000..20000]"
    using newest_first_answer [of ?self 1000 19998] newest_first_answer [of ?self 2000 19999]
      newest_first_answer [of ?self 2000 20000] p1 p2
    by (simp only: dates_append) (simp del: upto_rec_numeral)
  then have "dates (drop 1 (cryptocompare_answer ?e ?self 1000 19998 @ (b2 # bs2) @ (b1 # bs1))) =
      drop 1 (rev [18998..19998] @ rev [17999..19999] @ rev [18000..20000])"
    by (simp only: dates_drop)
  then show ?thesis
    using fetch
    by (simp add: staged_dates_def get_ohlc_data_def set_limit_assigned btc_is_crypto
        del: upto_rec_numeral)
qed

text \<open>
  Claim C1, amended. For a crypto instrument and a window of 5000 days with the start
  date given, where every request of size \<open>n\<close> is answered with the \<open>n + 1\<close> points of
  the contiguous days ending at the requested day, oldest first (the order that
  \<^verbatim>\<open>request_cryptocompare\<close> keeps), the days left in \<^verbatim>\<open>self.data\<close> are strictly ascending,
  without a gap and without a repeated day, and end at \<^verbatim>\<open>end_date\<close>.
\<close>

theorem stitched_5000_is_ascending_without_gaps:
  assumes "vehicle (cc_instrument self) = ''crypto''"
    and "\<forall>n to_date. dates (cryptocompare_answer e self n to_date) = [to_date - n..to_date]"
  shows "\<exists>ds. staged_dates e self end_date (Some (end_date - 5000)) w = Some ds \<and>
     sorted_wrt (<) ds \<and> contiguous ds \<and> distinct ds \<and> ds \<noteq> [] \<and> last ds = end_date"
proof -
  have "[end_date - 5001..end_date] = [end_date - 5001..end_date - 1] @ [end_date]"
    by (simp add: upto_rec2 [of "end_date - 5001" end_date])
  then have "last [end_date - 5001..end_date] = end_date"
    by simp
  then show ?thesis
    using window_5000_oldest_first [OF assms, of end_date w]
    by (simp add: contiguous_upto)
qed

theorem stitched_5000_is_ascending_without_gaps_witness:
  "vehicle (cc_instrument (CryptoCompareOHLC_init (synthetic_env oldest_first) ''BTCUSD''))
     = ''crypto'' \<and>
   (\<forall>n to_date.
      dates (cryptocompare_answer (synthetic_env oldest_first)
               (CryptoCompareOHLC_init (synthetic_env oldest_first) ''BTCUSD'') n to_date)
        = [to_date - n..to_date]) \<and>
   (\<exists>ds. staged_dates (synthetic_env oldest_first)
            (CryptoCompareOHLC_init (synthetic_env oldest_first) ''BTCUSD'')
            20000 (Some 15000) empty_world = Some ds \<and>
         sorted_wrt (<) ds \<and> contiguous ds \<and> distinct ds \<and> ds \<noteq> [] \<and> last ds = 20000)"
proof -
  let ?e = "synthetic_env oldest_first"
  let ?self = "CryptoCompareOHLC_init ?e ''BTCUSD''"
  have H: "\<forall>n to_date. dates (cryptocompare_answer ?e ?self n to_date) = [to_date - n..to_date]"
    by (simp add: oldest_first_answer)
  show ?thesis
    using stitched_5000_is_ascending_without_gaps [OF btc_is_crypto H, of 20000 empty_world] H
    by (simp add: btc_is_crypto del: upto_rec_numeral)
qed

text \<open>
  The claim as it was stated, with every answer newest first, is false: the two
  reversals of \<^verbatim>\<open>request_cryptocompare\<close> keep the vendor's order, \<^verbatim>\<open>data[0][0]\<close> is then
  the newest day of a page, and the pages overlap. For the window of 5000 days ending
  at day 20000 the days left in \<^verbatim>\<open>self.data\<close> are 5002, descending within each page,
  and day 19999 occurs twice.
\<close>

theorem newest_first_counterexample:
  "staged_dates (synthetic_env newest_first)
      (CryptoCompareOHLC_init (synthetic_env newest_first) ''BTCUSD'') 20000 (Some 15000)
      empty_world =
     Some (drop 1 (rev [18998..19998] @ rev [17999..19999] @ rev [18000..20000])) \<and>
   length (drop 1 (rev [18998..19998] @ rev [17999..19999] @ rev [18000..20000])) = 5002 \<and>
   \<not> sorted_wrt (<) (drop 1 (rev [18998..19998] @ rev [17999..19999] @ rev [18000..20000])) \<and>
   \<not> distinct (drop 1 (rev [18998..19998] @ rev [17999..19999] @ rev [18000..20000]))"
proof -
  define p3 where "p3 = rev [18998..19998 :: int]"
  define p2 where "p2 = rev [17999..19999 :: int]"
  define p1 where "p1 = rev [18000..20000 :: int]"
  have l3: "length p3 = 1001" and l2: "length p2 = 2001" and l1: "length p1 = 2001"
    by (simp_all add: p3_def p2_def p1_def del: upto_rec_numeral)
  have shape: "drop 1 (p3 @ p2 @ p1) = drop 1 p3 @ p2 @ p1"
    using l3 by simp
  have in2: "19999 \<in> set p2" and in1: "19999 \<in> set p1"
    by (simp_all add: p2_def p1_def del: upto_rec_numeral)
  have "\<not> distinct (p2 @ p1)"
    using in2 in1 by auto
  then have nd: "\<not> distinct (drop 1 (p3 @ p2 @ p1))"
    unfolding shape using distinct_append [of "drop 1 p3" "p2 @ p1"] by blast
  have "\<not> sorted_wrt (<) (p2 @ p1)"
    using in2 in1 by (auto simp: sorted_wrt_append)
  then have ns: "\<not> sorted_wrt (<) (drop 1 (p3 @ p2 @ p1))"
    unfolding shape using sorted_wrt_append [of "(<)" "drop 1 p3" "p2 @ p1"] by blast
  have len: "length (drop 1 (p3 @ p2 @ p1)) = 5002"
    using l3 l2 l1 by simp
  show ?thesis
    using newest_first_window_5000 [of empty_world] nd ns len
    unfolding p3_def p2_def p1_def by blast
qed

end
